theory Spec2Isabelle
  imports Complex_Main "HOL-Library.Product_Lexorder"
begin

section \<open>Data model\<close>

text \<open>
  The viewer works on numpy arrays of shape (N, 3). An array is a list of rows, a row is a
  triple. Coordinates, stored colours and the camera's fields are finite floats, modelled
  as exact reals: rounding is outside this model. Where the code computes a value that can
  be an infinity or NaN (the distances of \<open>remove_outliers\<close>, the normalization and the
  colours of \<open>height_colormap\<close>), the value is of the type \<open>fp\<close> below.
\<close>

type_synonym vec3 = "real \<times> real \<times> real"

type_synonym rgb = "real \<times> real \<times> real"

datatype error = ValueError | IndexError | FileNotFoundError | ZeroDivisionError

section \<open>Floating-point values\<close>

text \<open>
  A float64 value: a real, an infinity or NaN, with the arithmetic IEEE 754 gives
  infinities and NaN. The finite part stays exact.
\<close>

datatype fp = Fin real | PInf | NInf | NaN

fun fadd :: "fp \<Rightarrow> fp \<Rightarrow> fp" where
  "fadd NaN y = NaN"
| "fadd x NaN = NaN"
| "fadd PInf NInf = NaN"
| "fadd NInf PInf = NaN"
| "fadd PInf y = PInf"
| "fadd x PInf = PInf"
| "fadd NInf y = NInf"
| "fadd x NInf = NInf"
| "fadd (Fin a) (Fin b) = Fin (a + b)"

fun fneg :: "fp \<Rightarrow> fp" where
  "fneg NaN = NaN"
| "fneg PInf = NInf"
| "fneg NInf = PInf"
| "fneg (Fin a) = Fin (- a)"

definition fsub :: "fp \<Rightarrow> fp \<Rightarrow> fp" where
  "fsub x y = fadd x (fneg y)"

fun fabs :: "fp \<Rightarrow> fp" where
  "fabs NaN = NaN"
| "fabs PInf = PInf"
| "fabs NInf = PInf"
| "fabs (Fin a) = Fin \<bar>a\<bar>"

fun fsign :: "fp \<Rightarrow> int" where
  "fsign (Fin a) = (if a < 0 then - 1 else if a = 0 then 0 else 1)"
| "fsign PInf = 1"
| "fsign NInf = - 1"
| "fsign NaN = 0"

fun fmul :: "fp \<Rightarrow> fp \<Rightarrow> fp" where
  "fmul NaN y = NaN"
| "fmul x NaN = NaN"
| "fmul (Fin a) (Fin b) = Fin (a * b)"
| "fmul x y =
     (if fsign x * fsign y = 0 then NaN else if fsign x * fsign y > 0 then PInf else NInf)"

fun fless :: "fp \<Rightarrow> fp \<Rightarrow> bool" where
  "fless NaN y = False"
| "fless x NaN = False"
| "fless PInf y = False"
| "fless x NInf = False"
| "fless NInf y = True"
| "fless x PInf = True"
| "fless (Fin a) (Fin b) = (a < b)"

text \<open>
  Division. The sign of a zero is not modelled: a zero divisor counts as positive zero.
\<close>

fun fdiv :: "fp \<Rightarrow> fp \<Rightarrow> fp" where
  "fdiv NaN y = NaN"
| "fdiv x NaN = NaN"
| "fdiv (Fin a) (Fin b) =
     (if b = 0 then (if a = 0 then NaN else if a > 0 then PInf else NInf) else Fin (a / b))"
| "fdiv (Fin a) y = Fin 0"
| "fdiv x (Fin b) = (if fsign x * (if b < 0 then - 1 else 1) > 0 then PInf else NInf)"
| "fdiv x y = NaN"

text \<open>
  Overflow. The largest float64 is \<open>2^1024 - 2^971\<close>; a finite result of magnitude
  \<open>2^1024 - 2^970\<close> or more, half a unit in the last place above it, rounds to an
  infinity. The operations of \<open>height_colormap\<close> are the exact ones followed by this step.
\<close>

definition overflow_threshold :: real where
  "overflow_threshold = 2 ^ 1024 - 2 ^ 970"

fun overflow :: "fp \<Rightarrow> fp" where
  "overflow (Fin a) =
     (if overflow_threshold \<le> a then PInf
      else if a \<le> - overflow_threshold then NInf
      else Fin a)"
| "overflow x = x"

definition f64_add :: "fp \<Rightarrow> fp \<Rightarrow> fp" where
  "f64_add x y = overflow (fadd x y)"

definition f64_sub :: "fp \<Rightarrow> fp \<Rightarrow> fp" where
  "f64_sub x y = overflow (fsub x y)"

definition f64_mul :: "fp \<Rightarrow> fp \<Rightarrow> fp" where
  "f64_mul x y = overflow (fmul x y)"

definition f64_div :: "fp \<Rightarrow> fp \<Rightarrow> fp" where
  "f64_div x y = overflow (fdiv x y)"

text \<open>
  \<open>np.minimum\<close> and \<open>np.maximum\<close> return NaN when an argument is NaN, and so do
  \<open>min()\<close> and \<open>max()\<close> of an array; \<open>np.clip(a, a_min, a_max)\<close> is
  \<open>np.minimum(np.maximum(a, a_min), a_max)\<close>. \<open>amin\<close> and \<open>amax\<close> are for
  non-empty arrays (numpy raises ValueError on an empty one, which the callers model).
\<close>

definition np_minimum :: "fp \<Rightarrow> fp \<Rightarrow> fp" where
  "np_minimum x y = (if x = NaN \<or> y = NaN then NaN else if fless y x then y else x)"

definition np_maximum :: "fp \<Rightarrow> fp \<Rightarrow> fp" where
  "np_maximum x y = (if x = NaN \<or> y = NaN then NaN else if fless x y then y else x)"

definition fclip :: "fp \<Rightarrow> fp \<Rightarrow> fp \<Rightarrow> fp" where
  "fclip a a_min a_max = np_minimum (np_maximum a a_min) a_max"

fun amin :: "fp list \<Rightarrow> fp" where
  "amin (x # xs) = fold np_minimum xs x"

fun amax :: "fp list \<Rightarrow> fp" where
  "amax (x # xs) = fold np_maximum xs x"


type_synonym frgb = "fp \<times> fp \<times> fp"



section \<open>cityscape\_viewer.py: classification colours\<close>

text \<open>The module-level dict \<open>CLASSIFICATION_COLORS\<close>, entry by entry.\<close>

definition CLASSIFICATION_COLORS :: "(int \<times> rgb) list" where
  "CLASSIFICATION_COLORS =
    [(0, (0.5, 0.5, 0.5)),
     (1, (0.3, 0.3, 0.3)),
     (2, (0.6, 0.4, 0.2)),
     (3, (0.2, 0.6, 0.2)),
     (4, (0.1, 0.7, 0.1)),
     (5, (0.0, 0.8, 0.0)),
     (6, (0.9, 0.1, 0.1)),
     (7, (0.9, 0.9, 0.0)),
     (9, (0.0, 0.5, 0.9)),
     (10, (0.5, 0.0, 0.9)),
     (11, (0.3, 0.3, 0.3)),
     (13, (0.8, 0.8, 0.2)),
     (14, (0.9, 0.5, 0.0)),
     (15, (0.7, 0.3, 0.0)),
     (17, (0.4, 0.4, 0.4)),
     (18, (0.0, 0.8, 0.8))]"

text \<open>\<open>CLASSIFICATION_COLORS.get(cls, (0.5, 0.5, 0.5))\<close>\<close>

definition classification_color :: "int \<Rightarrow> rgb" where
  "classification_color cls =
    (case map_of CLASSIFICATION_COLORS cls of
       Some col \<Rightarrow> col
     | None \<Rightarrow> (0.5, 0.5, 0.5))"

text \<open>
  The loop \<open>for i, cls in enumerate(las.classification): colors[i] = ...\<close> over an array
  of zeros with one row per point.
\<close>

definition colorize :: "int list \<Rightarrow> rgb list" where
  "colorize classification = map classification_color classification"

definition in_unit :: "rgb \<Rightarrow> bool" where
  "in_unit col = (case col of (r, g, b) \<Rightarrow>
     0 \<le> r \<and> r \<le> 1 \<and> 0 \<le> g \<and> g \<le> 1 \<and> 0 \<le> b \<and> b \<le> 1)"

section \<open>renderer.py: Camera\<close>

definition vadd :: "vec3 \<Rightarrow> vec3 \<Rightarrow> vec3" where
  "vadd a b = (case a of (ax, ay, az) \<Rightarrow> case b of (bx, by, bz) \<Rightarrow> (ax + bx, ay + by, az + bz))"

definition vsub :: "vec3 \<Rightarrow> vec3 \<Rightarrow> vec3" where
  "vsub a b = (case a of (ax, ay, az) \<Rightarrow> case b of (bx, by, bz) \<Rightarrow> (ax - bx, ay - by, az - bz))"

definition vscale :: "vec3 \<Rightarrow> real \<Rightarrow> vec3" where
  "vscale a s = (case a of (ax, ay, az) \<Rightarrow> (ax * s, ay * s, az * s))"

definition cross :: "vec3 \<Rightarrow> vec3 \<Rightarrow> vec3" where
  "cross a b = (case a of (ax, ay, az) \<Rightarrow> case b of (bx, by, bz) \<Rightarrow>
     (ay * bz - az * by, az * bx - ax * bz, ax * by - ay * bx))"

definition vlength :: "vec3 \<Rightarrow> real" where
  "vlength a = (case a of (ax, ay, az) \<Rightarrow> sqrt (ax * ax + ay * ay + az * az))"

text \<open>\<open>glm.normalize\<close>; on the zero vector the source yields NaN, which reals do not have.\<close>

definition normalize :: "vec3 \<Rightarrow> vec3" where
  "normalize a = vscale a (1 / vlength a)"

definition radians :: "real \<Rightarrow> real" where
  "radians d = d * pi / 180"

text \<open>\<open>np.clip(a, a_min, a_max)\<close>: the lower bound first, then the upper one.\<close>

definition clip :: "real \<Rightarrow> real \<Rightarrow> real \<Rightarrow> real" where
  "clip a a_min a_max = min (max a a_min) a_max"

record Camera =
  position :: vec3
  target :: vec3
  up :: vec3
  distance :: real
  azimuth :: real
  elevation :: real
  rotation_speed :: real
  zoom_speed :: real
  pan_speed :: real

definition Camera_update_position :: "Camera \<Rightarrow> Camera" where
  "Camera_update_position c =
    (let az_rad = radians (azimuth c);
         el_rad = radians (elevation c);
         x = distance c * cos el_rad * cos az_rad;
         y = distance c * cos el_rad * sin az_rad;
         z = distance c * sin el_rad
     in c\<lparr>position := vadd (target c) (x, y, z)\<rparr>)"

text \<open>\<open>Camera.__init__(position=None, target=None)\<close>\<close>

definition Camera_init :: "vec3 option \<Rightarrow> vec3 option \<Rightarrow> Camera" where
  "Camera_init position_arg target_arg =
    (let p = (case position_arg of None \<Rightarrow> (0, 0, 50) | Some v \<Rightarrow> v);
         t = (case target_arg of None \<Rightarrow> (0, 0, 0) | Some v \<Rightarrow> v)
     in Camera_update_position
          \<lparr>position = p, target = t, up = (0, 0, 1),
           distance = vlength (vsub p t), azimuth = 45, elevation = 30,
           rotation_speed = 0.5, zoom_speed = 2, pan_speed = 0.1\<rparr>)"

definition Camera_rotate :: "real \<Rightarrow> real \<Rightarrow> Camera \<Rightarrow> Camera" where
  "Camera_rotate delta_azimuth delta_elevation c =
    (let c1 = c\<lparr>azimuth := azimuth c + delta_azimuth * rotation_speed c\<rparr>;
         c2 = c1\<lparr>elevation := elevation c1 + delta_elevation * rotation_speed c1\<rparr>;
         c3 = c2\<lparr>elevation := clip (elevation c2) (- 89) 89\<rparr>
     in Camera_update_position c3)"

definition Camera_zoom :: "real \<Rightarrow> Camera \<Rightarrow> Camera" where
  "Camera_zoom delta c =
    (let c1 = c\<lparr>distance := distance c * (1 - delta * zoom_speed c * 0.1)\<rparr>;
         c2 = c1\<lparr>distance := max 1 (min (distance c1) 1000)\<rparr>
     in Camera_update_position c2)"

definition Camera_pan :: "real \<Rightarrow> real \<Rightarrow> Camera \<Rightarrow> Camera" where
  "Camera_pan delta_x delta_y c =
    (let forward = normalize (vsub (target c) (position c));
         right = normalize (cross forward (up c));
         upv = cross right forward;
         move = vscale right (delta_x * pan_speed c * distance c * 0.01);
         move2 = vadd move (vscale upv (delta_y * pan_speed c * distance c * 0.01))
     in Camera_update_position (c\<lparr>target := vadd (target c) move2\<rparr>))"

text \<open>A run of \<open>rotate\<close> calls, and of \<open>zoom\<close> calls, in the order given.\<close>

definition rotate_calls :: "Camera \<Rightarrow> (real \<times> real) list \<Rightarrow> Camera" where
  "rotate_calls c ds = foldl (\<lambda>cam d. Camera_rotate (fst d) (snd d) cam) c ds"

definition zoom_calls :: "Camera \<Rightarrow> real list \<Rightarrow> Camera" where
  "zoom_calls c ds = foldl (\<lambda>cam d. Camera_zoom d cam) c ds"

section \<open>renderer.py: PointCloudRenderer\<close>

text \<open>The GLFW constants the callbacks compare against, with the values GLFW gives them.\<close>

definition RELEASE :: int where "RELEASE = 0"
definition PRESS :: int where "PRESS = 1"
definition REPEAT :: int where "REPEAT = 2"
definition MOUSE_BUTTON_LEFT :: int where "MOUSE_BUTTON_LEFT = 0"
definition MOUSE_BUTTON_RIGHT :: int where "MOUSE_BUTTON_RIGHT = 1"
definition KEY_ESCAPE :: int where "KEY_ESCAPE = 256"
definition KEY_W :: int where "KEY_W = 87"
definition KEY_S :: int where "KEY_S = 83"
definition KEY_R :: int where "KEY_R = 82"
definition KEY_EQUAL :: int where "KEY_EQUAL = 61"
definition KEY_MINUS :: int where "KEY_MINUS = 45"
definition KEY_KP_ADD :: int where "KEY_KP_ADD = 334"
definition KEY_KP_SUBTRACT :: int where "KEY_KP_SUBTRACT = 333"

text \<open>
  The renderer's fields. \<open>should_close\<close> is the window's close flag, set through
  \<open>glfw.set_window_should_close\<close>. \<open>calls\<close> is not a field of the source: it records, in
  order, each method the callbacks invoke on the camera, so that "invoked once" can be said.
\<close>

datatype camera_call = Rotate real real | Pan real real | Zoom real | Reset

record Renderer =
  width :: int
  height :: int
  camera :: Camera
  mouse_pressed :: bool
  last_mouse_x :: real
  last_mouse_y :: real
  mouse_button :: "int option"
  points :: "vec3 list option"
  colors :: "frgb list option"
  point_size :: real
  should_close :: bool
  calls :: "camera_call list"

text \<open>The state \<open>__init__\<close> leaves when GLFW and the window come up.\<close>

definition Renderer_init :: "int \<Rightarrow> int \<Rightarrow> Renderer" where
  "Renderer_init w h =
    \<lparr>width = w, height = h, camera = Camera_init None None,
     mouse_pressed = False, last_mouse_x = 0, last_mouse_y = 0, mouse_button = None,
     points = None, colors = None, point_size = 2, should_close = False, calls = []\<rparr>"

text \<open>\<open>cursor\<close> is what \<open>glfw.get_cursor_pos(window)\<close> returns at the time of the event.\<close>

definition mouse_button_callback :: "real \<times> real \<Rightarrow> int \<Rightarrow> int \<Rightarrow> Renderer \<Rightarrow> Renderer" where
  "mouse_button_callback cursor button action r =
    (if action = PRESS then
       r\<lparr>mouse_pressed := True, mouse_button := Some button,
         last_mouse_x := fst cursor, last_mouse_y := snd cursor\<rparr>
     else if action = RELEASE then
       r\<lparr>mouse_pressed := False, mouse_button := None\<rparr>
     else r)"

definition mouse_move_callback :: "real \<Rightarrow> real \<Rightarrow> Renderer \<Rightarrow> Renderer" where
  "mouse_move_callback xpos ypos r =
    (if mouse_pressed r then
       (let dx = xpos - last_mouse_x r;
            dy = ypos - last_mouse_y r;
            r1 = (if mouse_button r = Some MOUSE_BUTTON_LEFT then
                    r\<lparr>camera := Camera_rotate dx (- dy) (camera r),
                      calls := calls r @ [Rotate dx (- dy)]\<rparr>
                  else if mouse_button r = Some MOUSE_BUTTON_RIGHT then
                    r\<lparr>camera := Camera_pan (- dx) dy (camera r),
                      calls := calls r @ [Pan (- dx) dy]\<rparr>
                  else r)
        in r1\<lparr>last_mouse_x := xpos, last_mouse_y := ypos\<rparr>)
     else r)"

definition scroll_callback :: "real \<Rightarrow> real \<Rightarrow> Renderer \<Rightarrow> Renderer" where
  "scroll_callback xoffset yoffset r =
    r\<lparr>camera := Camera_zoom (- yoffset) (camera r), calls := calls r @ [Zoom (- yoffset)]\<rparr>"

definition key_callback :: "int \<Rightarrow> int \<Rightarrow> Renderer \<Rightarrow> Renderer" where
  "key_callback key action r =
    (if action = PRESS \<or> action = REPEAT then
       (if key = KEY_ESCAPE then r\<lparr>should_close := True\<rparr>
        else if key = KEY_W then
          r\<lparr>camera := Camera_zoom 1 (camera r), calls := calls r @ [Zoom 1]\<rparr>
        else if key = KEY_S then
          r\<lparr>camera := Camera_zoom (- 1) (camera r), calls := calls r @ [Zoom (- 1)]\<rparr>
        else if key = KEY_EQUAL \<or> key = KEY_KP_ADD then
          r\<lparr>point_size := min (point_size r + 0.5) 10\<rparr>
        else if key = KEY_MINUS \<or> key = KEY_KP_SUBTRACT then
          r\<lparr>point_size := max (point_size r - 0.5) 1\<rparr>
        else if key = KEY_R then
          r\<lparr>camera := Camera_init None None, calls := calls r @ [Reset]\<rparr>
        else r)
     else r)"

definition resize_callback :: "int \<Rightarrow> int \<Rightarrow> Renderer \<Rightarrow> Renderer" where
  "resize_callback w h r = r\<lparr>width := w, height := h\<rparr>"

text \<open>The events \<open>glfw.poll_events\<close> delivers, each to its callback.\<close>

datatype event =
    MouseButton "real \<times> real" int int
  | CursorPos real real
  | Scroll real real
  | Key int int
  | Resize int int

fun dispatch :: "Renderer \<Rightarrow> event \<Rightarrow> Renderer" where
  "dispatch r (MouseButton cursor button action) = mouse_button_callback cursor button action r"
| "dispatch r (CursorPos xpos ypos) = mouse_move_callback xpos ypos r"
| "dispatch r (Scroll xoffset yoffset) = scroll_callback xoffset yoffset r"
| "dispatch r (Key key action) = key_callback key action r"
| "dispatch r (Resize w h) = resize_callback w h r"

definition poll_events :: "Renderer \<Rightarrow> event list \<Rightarrow> Renderer" where
  "poll_events r evs = foldl dispatch r evs"

text \<open>
  \<open>height_colormap(heights)\<close>. \<open>heights.min()\<close> raises ValueError on an empty array.
  \<open>normalized_heights\<close> is the local variable \<open>normalized\<close> of the source, and
  \<open>colormap_row\<close> the three columns of \<open>colors\<close> for one normalized height.
\<close>

definition normalized_heights :: "fp list \<Rightarrow> fp list" where
  "normalized_heights heights =
    (let h_min = amin heights;
         h_max = amax heights
     in if fless h_min h_max
        then map (\<lambda>h. f64_div (f64_sub h h_min) (f64_sub h_max h_min)) heights
        else map (\<lambda>h. Fin 0) heights)"

definition colormap_row :: "fp \<Rightarrow> frgb" where
  "colormap_row n =
    (fclip (f64_sub (f64_mul (Fin 1.5) n) (Fin 0.5)) (Fin 0) (Fin 1),
     fclip (f64_add (f64_mul (Fin (- 2)) (fabs (f64_sub n (Fin 0.5)))) (Fin 1)) (Fin 0) (Fin 1),
     fclip (f64_sub (f64_mul (Fin 1.5) (f64_sub (Fin 1) n)) (Fin 0.5)) (Fin 0) (Fin 1))"

definition height_colormap :: "fp list \<Rightarrow> error + frgb list" where
  "height_colormap heights =
    (if heights = [] then Inl ValueError
     else
       (let normalized = normalized_heights heights
        in Inr (map colormap_row normalized)))"

text \<open>\<open>points.mean(axis=0)\<close> and \<open>np.max(points.max(axis=0) - points.min(axis=0))\<close>\<close>

definition mean_axis0 :: "vec3 list \<Rightarrow> vec3" where
  "mean_axis0 pts =
    (let n = real (length pts)
     in (sum_list (map fst pts) / n,
         sum_list (map (\<lambda>p. fst (snd p)) pts) / n,
         sum_list (map (\<lambda>p. snd (snd p)) pts) / n))"

definition bbox_max_dim :: "vec3 list \<Rightarrow> real" where
  "bbox_max_dim pts =
    (let xs = map fst pts;
         ys = map (\<lambda>p. fst (snd p)) pts;
         zs = map (\<lambda>p. snd (snd p)) pts
     in max (Max (set xs) - Min (set xs))
          (max (Max (set ys) - Min (set ys)) (Max (set zs) - Min (set zs))))"

text \<open>
  \<open>load_points(points, colors=None)\<close>. On an empty array the source raises ValueError:
  in \<open>height_colormap\<close> when no colours are given, in \<open>points.max(axis=0)\<close> otherwise.
  The heights are the z coordinates, finite floats; colours handed in are finite too.
\<close>

definition load_points :: "vec3 list \<Rightarrow> rgb list option \<Rightarrow> Renderer \<Rightarrow> error + Renderer" where
  "load_points pts colors_arg r =
    (case (case colors_arg of
             None \<Rightarrow> height_colormap (map (\<lambda>p. Fin (snd (snd p))) pts)
           | Some cs \<Rightarrow> Inr (map (\<lambda>c. case c of (r, g, b) \<Rightarrow> (Fin r, Fin g, Fin b)) cs)) of
       Inl e \<Rightarrow> Inl e
     | Inr cs \<Rightarrow>
         if pts = [] then Inl ValueError
         else
           (let cam1 = (camera r)\<lparr>target := mean_axis0 pts\<rparr>;
                cam2 = cam1\<lparr>distance := bbox_max_dim pts * 1.5\<rparr>
            in Inr (r\<lparr>points := Some pts, colors := Some cs,
                      camera := Camera_update_position cam2\<rparr>)))"

text \<open>The clamp of \<open>zoom\<close>, as a predicate on a camera.\<close>

definition distance_in_bounds :: "Camera \<Rightarrow> bool" where
  "distance_in_bounds c = (1 \<le> distance c \<and> distance c \<le> 1000)"

section \<open>loader.py: voxel grid\<close>

type_synonym voxel = "int \<times> int \<times> int"

text \<open>
  One component of \<open>np.floor(points / voxel_size).astype(np.int32)\<close>. When the floor of
  the quotient fits in 32 bits the cast yields it. Otherwise (the quotient too large, or
  the division by a zero voxel size, which numpy answers with an infinity or NaN) the C
  conversion is undefined and numpy's result depends on the platform: \<open>oor\<close>, a parameter
  of the model, stands for what the platform yields for that coordinate and voxel size.
\<close>

definition voxel_coord :: "(real \<Rightarrow> real \<Rightarrow> int) \<Rightarrow> real \<Rightarrow> real \<Rightarrow> int" where
  "voxel_coord oor voxel_size x =
    (if voxel_size \<noteq> 0 \<and> - 2147483648 \<le> \<lfloor>x / voxel_size\<rfloor> \<and> \<lfloor>x / voxel_size\<rfloor> \<le> 2147483647
     then \<lfloor>x / voxel_size\<rfloor>
     else oor x voxel_size)"

definition voxel_index :: "(real \<Rightarrow> real \<Rightarrow> int) \<Rightarrow> real \<Rightarrow> vec3 \<Rightarrow> voxel" where
  "voxel_index oor voxel_size p = (case p of (x, y, z) \<Rightarrow>
     (voxel_coord oor voxel_size x, voxel_coord oor voxel_size y, voxel_coord oor voxel_size z))"

text \<open>The index of the first occurrence of \<open>k\<close> in a list that holds it.\<close>

fun first_index :: "'a list \<Rightarrow> 'a \<Rightarrow> nat" where
  "first_index [] k = 0"
| "first_index (x # xs) k = (if x = k then 0 else Suc (first_index xs k))"

text \<open>
  The second result of \<open>np.unique(ar, axis=0, return_index=True)\<close>: numpy returns the
  distinct rows sorted in ascending (lexicographic) order and, for each of them in that
  order, the index of its first occurrence in \<open>ar\<close>.
\<close>

definition unique_return_index :: "'a::linorder list \<Rightarrow> nat list" where
  "unique_return_index ar = map (first_index ar) (sort (remdups ar))"

text \<open>\<open>a[indices]\<close> with an integer index array: IndexError when an index is out of bounds.\<close>

definition take_rows :: "'a list \<Rightarrow> nat list \<Rightarrow> error + 'a list" where
  "take_rows a indices =
    (if list_all (\<lambda>i. i < length a) indices then Inr (map (\<lambda>i. a ! i) indices)
     else Inl IndexError)"

definition voxel_downsample ::
  "(real \<Rightarrow> real \<Rightarrow> int) \<Rightarrow> vec3 list \<Rightarrow> rgb list option \<Rightarrow> real
     \<Rightarrow> error + (vec3 list \<times> rgb list option)" where
  "voxel_downsample oor pts cols voxel_size =
    (let voxel_indices = map (voxel_index oor voxel_size) pts;
         unique_indices = unique_return_index voxel_indices
     in case take_rows pts unique_indices of
          Inl e \<Rightarrow> Inl e
        | Inr downsampled_points \<Rightarrow>
            (case cols of
               None \<Rightarrow> Inr (downsampled_points, None)
             | Some cs \<Rightarrow>
                 (case take_rows cs unique_indices of
                    Inl e \<Rightarrow> Inl e
                  | Inr downsampled_colors \<Rightarrow> Inr (downsampled_points, Some downsampled_colors))))"

text \<open>
  The specification's wording of the voxel dedup, for comparison with the code: walk the
  points in index order and keep a point when its voxel has not been seen before, so that
  the output is in the order in which the voxels were first seen.
\<close>

fun spec_first_seen :: "('a \<Rightarrow> 'k) \<Rightarrow> 'k list \<Rightarrow> 'a list \<Rightarrow> 'a list" where
  "spec_first_seen key seen [] = []"
| "spec_first_seen key seen (p # ps) =
     (if key p \<in> set seen then spec_first_seen key seen ps
      else p # spec_first_seen key (key p # seen) ps)"

section \<open>loader.py and cityscape\_viewer.py: loading a file\<close>

text \<open>
  What \<open>laspy.read\<close> gives the loaders: the coordinates, the 16-bit colour channels when
  the point format has them (\<open>hasattr(las, 'red')\<close>), the classification codes when
  present (\<open>hasattr(las, 'classification')\<close>), the header's version. All arrays of a
  file have one entry per point.
\<close>

record las_file =
  name :: string
  xyz :: "vec3 list"
  rgb16 :: "(nat \<times> nat \<times> nat) list option"
  classification :: "int list option"
  version :: string

definition las_ok :: "las_file \<Rightarrow> bool" where
  "las_ok las =
    ((case rgb16 las of None \<Rightarrow> True | Some c \<Rightarrow> length c = length (xyz las))
     \<and> (case classification las of None \<Rightarrow> True | Some c \<Rightarrow> length c = length (xyz las)))"

record PointCloudLoader =
  max_points :: "int option"
  downsample_voxel :: "real option"

record metadata =
  filename :: string
  num_points :: nat
  bounds :: "(real \<times> real) \<times> (real \<times> real) \<times> (real \<times> real)"
  has_colors :: bool
  las_version :: string

record urban_metadata =
  urban_filename :: string
  urban_num_points :: nat
  has_classification :: bool

text \<open>
  \<open>if downsample_voxel: points, colors = voxel_downsample(points, colors, downsample_voxel)\<close>,
  the same statement in \<open>PointCloudLoader.load\<close> and in \<open>load_urban_las\<close>. Python takes
  \<open>None\<close> and the float 0.0 for false and every other float, the negative ones too, for
  true.
\<close>

definition apply_downsample ::
  "(real \<Rightarrow> real \<Rightarrow> int) \<Rightarrow> real option \<Rightarrow> vec3 list \<Rightarrow> rgb list option
     \<Rightarrow> error + (vec3 list \<times> rgb list option)" where
  "apply_downsample oor voxel pts cols =
    (case voxel of
       None \<Rightarrow> Inr (pts, cols)
     | Some v \<Rightarrow> if v \<noteq> 0 then voxel_downsample oor pts cols v else Inr (pts, cols))"

text \<open>
  \<open>if max_points and len(points) > max_points:\<close> followed by the random sample.
  \<open>choice n m\<close> stands for the draw \<open>np.random.choice(n, m, replace=False)\<close>, which
  numpy refuses with ValueError for a negative size.
\<close>

definition apply_max_points ::
  "(nat \<Rightarrow> nat \<Rightarrow> nat list) \<Rightarrow> int option \<Rightarrow> vec3 list \<Rightarrow> rgb list option
     \<Rightarrow> error + (vec3 list \<times> rgb list option)" where
  "apply_max_points choice limit pts cols =
    (case limit of
       None \<Rightarrow> Inr (pts, cols)
     | Some m \<Rightarrow>
         if m \<noteq> 0 \<and> int (length pts) > m then
           (if m < 0 then Inl ValueError
            else
              (let indices = choice (length pts) (nat m)
               in case take_rows pts indices of
                    Inl e \<Rightarrow> Inl e
                  | Inr ps \<Rightarrow>
                      (case cols of
                         None \<Rightarrow> Inr (ps, None)
                       | Some cs \<Rightarrow>
                           (case take_rows cs indices of
                              Inl e \<Rightarrow> Inl e
                            | Inr cs' \<Rightarrow> Inr (ps, Some cs')))))
         else Inr (pts, cols))"

definition bounds_of :: "vec3 list \<Rightarrow> (real \<times> real) \<times> (real \<times> real) \<times> (real \<times> real)" where
  "bounds_of pts =
    (let xs = map fst pts;
         ys = map (\<lambda>p. fst (snd p)) pts;
         zs = map (\<lambda>p. snd (snd p)) pts
     in ((Min (set xs), Max (set xs)), (Min (set ys), Max (set ys)), (Min (set zs), Max (set zs))))"

text \<open>
  \<open>PointCloudLoader.load\<close>. The file system is the argument \<open>file\<close>: \<open>None\<close> when the
  path does not exist. The bounds printed after reading, and those of the metadata, take
  \<open>min()\<close> of a column, which raises ValueError on an empty array.
\<close>

definition load ::
  "(real \<Rightarrow> real \<Rightarrow> int) \<Rightarrow> (nat \<Rightarrow> nat \<Rightarrow> nat list) \<Rightarrow> PointCloudLoader \<Rightarrow> las_file option
     \<Rightarrow> error + (vec3 list \<times> rgb list option \<times> metadata)" where
  "load oor choice self file =
    (case file of
       None \<Rightarrow> Inl FileNotFoundError
     | Some las \<Rightarrow>
         if xyz las = [] then Inl ValueError
         else
           (let cols0 = map_option
                  (map (\<lambda>c. case c of (r, g, b) \<Rightarrow>
                     (real r / 65535, real g / 65535, real b / 65535))) (rgb16 las)
            in case apply_downsample oor (downsample_voxel self) (xyz las) cols0 of
                 Inl e \<Rightarrow> Inl e
               | Inr (p1, c1) \<Rightarrow>
                   (case apply_max_points choice (max_points self) p1 c1 of
                      Inl e \<Rightarrow> Inl e
                    | Inr (p2, c2) \<Rightarrow>
                        if p2 = [] then Inl ValueError
                        else Inr (p2, c2,
                          \<lparr>filename = name las, num_points = length p2,
                           bounds = bounds_of p2, has_colors = (c2 \<noteq> None),
                           las_version = version las\<rparr>))))"

text \<open>
  The colours \<open>load_urban_las\<close> builds: an array of zeros with one row per point, row
  \<open>i\<close> overwritten for each classification code \<open>i\<close>.
\<close>

definition classification_colors :: "nat \<Rightarrow> int list \<Rightarrow> error + rgb list" where
  "classification_colors n codes =
    (if length codes > n then Inl IndexError
     else Inr (colorize codes @ replicate (n - length codes) (0, 0, 0)))"

text \<open>\<open>load_urban_las(filepath, max_points, downsample_voxel)\<close>; it never reads \<open>las.red\<close>.\<close>

definition load_urban_las ::
  "(real \<Rightarrow> real \<Rightarrow> int) \<Rightarrow> (nat \<Rightarrow> nat \<Rightarrow> nat list) \<Rightarrow> las_file option \<Rightarrow> int option
     \<Rightarrow> real option \<Rightarrow> error + (vec3 list \<times> rgb list option \<times> urban_metadata)" where
  "load_urban_las oor choice file limit voxel =
    (case file of
       None \<Rightarrow> Inl FileNotFoundError
     | Some las \<Rightarrow>
         if xyz las = [] then Inl ValueError
         else
           (case (case classification las of
                    None \<Rightarrow> Inr None
                  | Some codes \<Rightarrow> map_sum id Some (classification_colors (length (xyz las)) codes)) of
              Inl e \<Rightarrow> Inl e
            | Inr cols0 \<Rightarrow>
                (case apply_downsample oor voxel (xyz las) cols0 of
                   Inl e \<Rightarrow> Inl e
                 | Inr (p1, c1) \<Rightarrow>
                     (case apply_max_points choice limit p1 c1 of
                        Inl e \<Rightarrow> Inl e
                      | Inr (p2, c2) \<Rightarrow>
                          Inr (p2, c2,
                            \<lparr>urban_filename = name las, urban_num_points = length p2,
                             has_classification = (c2 \<noteq> None)\<rparr>)))))"


section \<open>loader.py: statistical outlier removal\<close>

text \<open>
  \<open>cKDTree.query\<close> marks a missing neighbour with an infinite distance, and numpy then
  computes with infinities and NaN. So the distances of \<open>remove_outliers\<close> are values
  of \<open>fp\<close>.
\<close>

text \<open>Division by a count, as \<open>mean\<close> does; the mean of no numbers is NaN.\<close>

fun fdiv_count :: "fp \<Rightarrow> nat \<Rightarrow> fp" where
  "fdiv_count (Fin a) n = (if n = 0 then NaN else Fin (a / real n))"
| "fdiv_count x n = (if n = 0 then NaN else x)"

fun fsqrt :: "fp \<Rightarrow> fp" where
  "fsqrt (Fin a) = (if a < 0 then NaN else Fin (sqrt a))"
| "fsqrt PInf = PInf"
| "fsqrt NInf = NaN"
| "fsqrt NaN = NaN"

definition fmean :: "fp list \<Rightarrow> fp" where
  "fmean xs = fdiv_count (foldl fadd (Fin 0) xs) (length xs)"

text \<open>\<open>np.std\<close>: the square root of the mean of the squared deviations from the mean.\<close>

definition fstd :: "fp list \<Rightarrow> fp" where
  "fstd xs =
    fsqrt (fmean (map (\<lambda>x. fmul (fabs (fsub x (fmean xs))) (fabs (fsub x (fmean xs)))) xs))"

text \<open>
  One row of \<open>tree.query(points, k)\<close>: the distances from \<open>p\<close> to its \<open>k\<close> nearest
  points of the tree (\<open>p\<close> itself among them, at distance 0), nearest first; when the
  tree holds fewer than \<open>k\<close> points, the row is filled up with infinite distances.
\<close>

definition query_row :: "vec3 list \<Rightarrow> nat \<Rightarrow> vec3 \<Rightarrow> fp list" where
  "query_row tree k p =
    (let ds = sort (map (\<lambda>q. vlength (vsub p q)) tree)
     in map Fin (take k ds) @ replicate (k - length ds) PInf)"

text \<open>\<open>a[mask]\<close> with a boolean mask of the length of \<open>a\<close>.\<close>

definition select_mask :: "bool list \<Rightarrow> 'a list \<Rightarrow> 'a list" where
  "select_mask keep a = map snd (filter fst (zip keep a))"

text \<open>
  \<open>remove_outliers(points, colors=None, nb_neighbors=20, std_ratio=2.0)\<close>. With
  \<open>nb_neighbors = 0\<close> the query returns a one-dimensional array and \<open>distances[:, 1:]\<close>
  raises IndexError; a colour array of another length than the mask raises IndexError;
  the percentage printed at the end divides by \<open>len(points)\<close>, ZeroDivisionError on an
  empty array.
\<close>

definition remove_outliers ::
  "vec3 list \<Rightarrow> rgb list option \<Rightarrow> nat \<Rightarrow> real \<Rightarrow> error + (vec3 list \<times> rgb list option)" where
  "remove_outliers pts cols nb_neighbors std_ratio =
    (if nb_neighbors = 0 then Inl IndexError
     else
       (let distances = map (query_row pts (nb_neighbors + 1)) pts;
            mean_distances = map (\<lambda>row. fmean (tl row)) distances;
            global_mean = fmean mean_distances;
            global_std = fstd mean_distances;
            threshold = fadd global_mean (fmul (Fin std_ratio) global_std);
            mask = map (\<lambda>m. fless m threshold) mean_distances;
            filtered_points = select_mask mask pts
        in case (case cols of
                   None \<Rightarrow> Inr None
                 | Some cs \<Rightarrow>
                     if length cs = length mask then Inr (Some (select_mask mask cs))
                     else Inl IndexError) of
             Inl e \<Rightarrow> Inl e
           | Inr filtered_colors \<Rightarrow>
               if pts = [] then Inl ZeroDivisionError
               else Inr (filtered_points, filtered_colors)))"

text \<open>\<open>load_las_file(filepath, max_points, downsample, remove_outliers)\<close>\<close>

definition load_las_file ::
  "(real \<Rightarrow> real \<Rightarrow> int) \<Rightarrow> (nat \<Rightarrow> nat \<Rightarrow> nat list) \<Rightarrow> las_file option \<Rightarrow> int option
     \<Rightarrow> real option \<Rightarrow> bool \<Rightarrow> error + (vec3 list \<times> rgb list option \<times> metadata)" where
  "load_las_file oor choice file limit downsample remove =
    (case load oor choice \<lparr>max_points = limit, downsample_voxel = downsample\<rparr> file of
       Inl e \<Rightarrow> Inl e
     | Inr (pts, cols, md) \<Rightarrow>
         if remove then
           (case remove_outliers pts cols 20 2 of
              Inl e \<Rightarrow> Inl e
            | Inr (pts', cols') \<Rightarrow> Inr (pts', cols', md))
         else Inr (pts, cols, md))"

section \<open>Classification colourizer\<close>

lemma CLASSIFICATION_COLORS_in_unit:
  "(c, col) \<in> set CLASSIFICATION_COLORS \<Longrightarrow> in_unit col"
  by (auto simp: CLASSIFICATION_COLORS_def in_unit_def)

text \<open>
  C4. The colourizer is total: every integer code has a colour with all three components
  in [0,1]; a code of the table gets the table's colour, code 6 the building colour
  (0.9, 0.1, 0.1); a code outside the table, 999 for one, gets the gray (0.5, 0.5, 0.5).
\<close>

theorem classification_color_total:
  "in_unit (classification_color c)
   \<and> (\<forall>col. map_of CLASSIFICATION_COLORS c = Some col \<longrightarrow> classification_color c = col)
   \<and> (c \<notin> fst ` set CLASSIFICATION_COLORS \<longrightarrow> classification_color c = (0.5, 0.5, 0.5))
   \<and> classification_color 6 = (0.9, 0.1, 0.1)
   \<and> classification_color 999 = (0.5, 0.5, 0.5)
   \<and> colorize [6, 999] = [(0.9, 0.1, 0.1), (0.5, 0.5, 0.5)]
   \<and> length (colorize cs) = length cs"
proof -
  have unit: "in_unit (classification_color c)"
  proof (cases "map_of CLASSIFICATION_COLORS c")
    case None
    then show ?thesis by (simp add: classification_color_def in_unit_def)
  next
    case (Some col)
    then have "(c, col) \<in> set CLASSIFICATION_COLORS" by (rule map_of_SomeD)
    then have "in_unit col" by (rule CLASSIFICATION_COLORS_in_unit)
    with Some show ?thesis by (simp add: classification_color_def)
  qed
  have tab: "\<forall>col. map_of CLASSIFICATION_COLORS c = Some col \<longrightarrow> classification_color c = col"
    by (simp add: classification_color_def)
  have dflt: "c \<notin> fst ` set CLASSIFICATION_COLORS \<longrightarrow> classification_color c = (0.5, 0.5, 0.5)"
  proof
    assume "c \<notin> fst ` set CLASSIFICATION_COLORS"
    then have "map_of CLASSIFICATION_COLORS c = None" by (simp add: map_of_eq_None_iff)
    then show "classification_color c = (0.5, 0.5, 0.5)" by (simp add: classification_color_def)
  qed
  have six: "classification_color 6 = (0.9, 0.1, 0.1)"
    by (simp add: classification_color_def CLASSIFICATION_COLORS_def)
  have unk: "classification_color 999 = (0.5, 0.5, 0.5)"
    by (simp add: classification_color_def CLASSIFICATION_COLORS_def)
  have two: "colorize [6, 999] = [(0.9, 0.1, 0.1), (0.5, 0.5, 0.5)]"
    using six unk by (simp add: colorize_def)
  have len: "length (colorize cs) = length cs" by (simp add: colorize_def)
  from unit tab dflt six unk two len show ?thesis by blast
qed

theorem classification_color_total_witness:
  "map_of CLASSIFICATION_COLORS 2 = Some (0.6, 0.4, 0.2)
   \<and> classification_color 2 = (0.6, 0.4, 0.2)
   \<and> 12 \<notin> fst ` set CLASSIFICATION_COLORS
   \<and> classification_color 12 = (0.5, 0.5, 0.5)
   \<and> in_unit (classification_color 12)"
proof -
  have a: "map_of CLASSIFICATION_COLORS 2 = Some (0.6, 0.4, 0.2)"
    by (simp add: CLASSIFICATION_COLORS_def)
  have b: "12 \<notin> fst ` set CLASSIFICATION_COLORS"
    by (simp add: CLASSIFICATION_COLORS_def)
  show ?thesis
    using a b classification_color_total [of 2 "[]"] classification_color_total [of 12 "[]"]
    by (simp add: in_unit_def)
qed

section \<open>Camera: elevation and distance\<close>

lemma Camera_init_distance: "distance (Camera_init None None) = 50"
proof -
  have "sqrt (50 * 50) = (50::real)" using real_sqrt_abs2 [of 50] by simp
  then show ?thesis
    by (simp add: Camera_init_def Camera_update_position_def vlength_def vsub_def Let_def)
qed

lemma Camera_init_fields:
  "azimuth (Camera_init None None) = 45"
  "elevation (Camera_init None None) = 30"
  "rotation_speed (Camera_init None None) = 0.5"
  by (simp_all add: Camera_init_def Camera_update_position_def Let_def)

lemma Camera_rotate_fields:
  "azimuth (Camera_rotate da de c) = azimuth c + da * rotation_speed c"
  "elevation (Camera_rotate da de c) = clip (elevation c + de * rotation_speed c) (- 89) 89"
  "rotation_speed (Camera_rotate da de c) = rotation_speed c"
  "distance (Camera_rotate da de c) = distance c"
  by (simp_all add: Camera_rotate_def Camera_update_position_def Let_def)

lemma clip_bounds: "lo \<le> hi \<Longrightarrow> lo \<le> clip a lo hi \<and> clip a lo hi \<le> hi"
  by (auto simp: clip_def)

lemma rotate_calls_snoc:
  "rotate_calls c (ds @ [d]) = Camera_rotate (fst d) (snd d) (rotate_calls c ds)"
  by (simp add: rotate_calls_def)

lemma rotate_calls_speed: "rotation_speed (rotate_calls c ds) = rotation_speed c"
proof (induction ds rule: rev_induct)
  case Nil
  show ?case by (simp add: rotate_calls_def)
next
  case (snoc d ds)
  then show ?case by (simp add: rotate_calls_snoc Camera_rotate_fields)
qed

lemma rotate_calls_azimuth:
  "azimuth (rotate_calls c ds) = azimuth c + rotation_speed c * sum_list (map fst ds)"
proof (induction ds rule: rev_induct)
  case Nil
  show ?case by (simp add: rotate_calls_def)
next
  case (snoc d ds)
  then show ?case
    by (simp add: rotate_calls_snoc Camera_rotate_fields rotate_calls_speed algebra_simps)
qed

lemma rotate_calls_elevation:
  "- 89 \<le> elevation c \<and> elevation c \<le> 89 \<Longrightarrow>
   - 89 \<le> elevation (rotate_calls c ds) \<and> elevation (rotate_calls c ds) \<le> 89"
proof (induction ds rule: rev_induct)
  case Nil
  then show ?case by (simp add: rotate_calls_def)
next
  case (snoc d ds)
  show ?case
    using clip_bounds [of "- 89" 89
        "elevation (rotate_calls c ds) + snd d * rotation_speed (rotate_calls c ds)"]
    by (simp add: rotate_calls_snoc Camera_rotate_fields)
qed

text \<open>
  C5, as the code has it. After any run of \<open>rotate\<close> calls from the default camera the
  elevation lies in the closed interval [-89, 89], and the azimuth is the unclamped sum
  45 + 0.5 times the azimuth deltas. Each call takes the elevation to the unclamped value,
  elevation + 0.5 times the elevation delta, clamped into [-89, 89] as \<open>np.clip\<close> does:
  it is 89 when the unclamped value is 89 or more, -89 when it is -89 or less. As \<open>ds\<close>
  is any list, this holds after every call of a run. The last two conjuncts say the same
  of one call on any camera.
\<close>

theorem rotate_elevation_closed:
  "- 89 \<le> elevation (rotate_calls (Camera_init None None) ds)
   \<and> elevation (rotate_calls (Camera_init None None) ds) \<le> 89
   \<and> azimuth (rotate_calls (Camera_init None None) ds) = 45 + 0.5 * sum_list (map fst ds)
   \<and> elevation (rotate_calls (Camera_init None None) (ds @ [(da, de)]))
       = min (max (elevation (rotate_calls (Camera_init None None) ds) + de * 0.5) (- 89)) 89
   \<and> (89 \<le> elevation (rotate_calls (Camera_init None None) ds) + de * 0.5 \<longrightarrow>
        elevation (rotate_calls (Camera_init None None) (ds @ [(da, de)])) = 89)
   \<and> (elevation (rotate_calls (Camera_init None None) ds) + de * 0.5 \<le> - 89 \<longrightarrow>
        elevation (rotate_calls (Camera_init None None) (ds @ [(da, de)])) = - 89)
   \<and> elevation (Camera_rotate da de c) = min (max (elevation c + de * rotation_speed c) (- 89)) 89
   \<and> azimuth (Camera_rotate da de c) = azimuth c + da * rotation_speed c"
proof -
  let ?c = "rotate_calls (Camera_init None None) ds"
  have b: "- 89 \<le> elevation ?c \<and> elevation ?c \<le> 89"
    using rotate_calls_elevation [of "Camera_init None None" ds]
    by (simp add: Camera_init_fields)
  have a: "azimuth ?c = 45 + 0.5 * sum_list (map fst ds)"
    by (simp add: rotate_calls_azimuth Camera_init_fields)
  have s: "elevation (rotate_calls (Camera_init None None) (ds @ [(da, de)]))
       = min (max (elevation ?c + de * 0.5) (- 89)) 89"
    by (simp add: rotate_calls_snoc Camera_rotate_fields rotate_calls_speed Camera_init_fields
        clip_def)
  have hi: "89 \<le> elevation ?c + de * 0.5 \<longrightarrow>
        elevation (rotate_calls (Camera_init None None) (ds @ [(da, de)])) = 89"
    unfolding s by simp
  have lo: "elevation ?c + de * 0.5 \<le> - 89 \<longrightarrow>
        elevation (rotate_calls (Camera_init None None) (ds @ [(da, de)])) = - 89"
    unfolding s by simp
  have one: "elevation (Camera_rotate da de c) = min (max (elevation c + de * rotation_speed c) (- 89)) 89"
    by (simp add: Camera_rotate_fields clip_def)
  have az: "azimuth (Camera_rotate da de c) = azimuth c + da * rotation_speed c"
    by (simp add: Camera_rotate_fields)
  from b a s hi lo one az show ?thesis by blast
qed

theorem rotate_elevation_closed_witness:
  "(89::real) \<le> elevation (rotate_calls (Camera_init None None) []) + 200 * 0.5
   \<and> elevation (rotate_calls (Camera_init None None) ([] @ [(0, 200)])) = 89
   \<and> elevation (rotate_calls (Camera_init None None) []) + (- 300) * 0.5 \<le> (- 89 :: real)
   \<and> elevation (rotate_calls (Camera_init None None) ([] @ [(0, - 300)])) = - 89"
proof -
  have e: "elevation (rotate_calls (Camera_init None None) []) = 30"
    by (simp add: rotate_calls_def Camera_init_fields)
  show ?thesis
    using rotate_elevation_closed [where ds = "[]" and de = 200 and da = 0
        and c = "Camera_init None None"]
      rotate_elevation_closed [where ds = "[]" and de = "- 300" and da = 0
        and c = "Camera_init None None"]
    by (simp add: e)
qed

text \<open>
  C5 as stated asks for the open interval. One call \<open>rotate(0, 200)\<close> on the default
  camera takes the elevation to 30 + 100, which the clip brings to 89 itself.
\<close>

theorem rotate_elevation_open_counterexample:
  "\<not> (elevation (rotate_calls (Camera_init None None) [(0, 200)]) < 89)"
  by (simp add: rotate_calls_def Camera_rotate_fields Camera_init_fields clip_def)

lemma Camera_zoom_in_bounds: "distance_in_bounds (Camera_zoom delta c)"
  by (simp add: distance_in_bounds_def Camera_zoom_def Camera_update_position_def Let_def)

lemma Camera_pan_distance: "distance (Camera_pan dx dy c) = distance c"
  by (simp add: Camera_pan_def Camera_update_position_def Let_def)

lemma dispatch_in_bounds:
  "distance_in_bounds (camera r) \<Longrightarrow> distance_in_bounds (camera (dispatch r ev))"
proof (cases ev)
  case (MouseButton cursor button action)
  assume "distance_in_bounds (camera r)"
  with MouseButton show ?thesis by (simp add: mouse_button_callback_def)
next
  case (CursorPos x y)
  assume "distance_in_bounds (camera r)"
  with CursorPos show ?thesis
    by (simp add: mouse_move_callback_def Let_def distance_in_bounds_def
        Camera_rotate_fields Camera_pan_distance)
next
  case (Scroll x y)
  then show ?thesis by (simp add: scroll_callback_def Camera_zoom_in_bounds)
next
  case (Key key action)
  assume "distance_in_bounds (camera r)"
  with Key show ?thesis
    using Camera_init_distance
    by (simp add: key_callback_def Camera_zoom_in_bounds) (simp add: distance_in_bounds_def)
next
  case (Resize w h)
  assume "distance_in_bounds (camera r)"
  with Resize show ?thesis by (simp add: resize_callback_def)
qed

lemma poll_events_in_bounds:
  "distance_in_bounds (camera r) \<Longrightarrow> distance_in_bounds (camera (poll_events r evs))"
  unfolding poll_events_def
  by (induction evs arbitrary: r) (simp_all add: dispatch_in_bounds)

lemma load_points_distance:
  "load_points pts cols r = Inr r' \<Longrightarrow> distance (camera r') = bbox_max_dim pts * 1.5"
  by (auto simp: load_points_def Camera_update_position_def Let_def
      split: sum.splits option.splits if_splits)

lemma zoom_calls_in_bounds: "distance_in_bounds (zoom_calls (Camera_init None None) ds)"
proof (induction ds rule: rev_induct)
  case Nil
  show ?case using Camera_init_distance by (simp add: zoom_calls_def distance_in_bounds_def)
next
  case (snoc d ds)
  show ?case by (simp add: zoom_calls_def Camera_zoom_in_bounds)
qed

text \<open>
  C6, as the code has it. \<open>zoom\<close> leaves the distance within [1.0, 1000.0] whatever the
  delta and the distance before, so does any run of \<open>zoom\<close> calls from the default camera,
  and every input callback keeps a distance that is within the bounds there.
  \<open>load_points\<close> does not clamp: it sets the distance to 1.5 times the largest extent of
  the bounding box of the points.
\<close>

theorem distance_clamp:
  "distance_in_bounds (Camera_zoom delta c)
   \<and> distance_in_bounds (zoom_calls (Camera_init None None) ds)
   \<and> (distance_in_bounds (camera r) \<longrightarrow> distance_in_bounds (camera (poll_events r evs)))
   \<and> (\<forall>r'. load_points pts cols r = Inr r' \<longrightarrow> distance (camera r') = bbox_max_dim pts * 1.5)"
  using zoom_calls_in_bounds Camera_zoom_in_bounds poll_events_in_bounds load_points_distance
  by blast

theorem distance_clamp_witness:
  "distance_in_bounds (camera (Renderer_init 1920 1080))
   \<and> distance_in_bounds
        (camera (poll_events (Renderer_init 1920 1080) [Scroll 0 1, Key KEY_R PRESS]))
   \<and> (\<exists>r'. load_points [(0, 0, 0), (2, 0, 0)] None (Renderer_init 1920 1080) = Inr r'
          \<and> distance (camera r') = 3)"
proof -
  have a: "distance_in_bounds (camera (Renderer_init 1920 1080))"
    using Camera_init_distance by (simp add: Renderer_init_def distance_in_bounds_def)
  have b: "bbox_max_dim [(0, 0, 0), (2, 0, 0)] = 2" by (simp add: bbox_max_dim_def Let_def)
  have c: "\<exists>r'. load_points [(0, 0, 0), (2, 0, 0)] None (Renderer_init 1920 1080) = Inr r'"
    by (simp add: load_points_def height_colormap_def Let_def)
  show ?thesis
    using a b c distance_clamp [of 0 "Camera_init None None" "[]" "Renderer_init 1920 1080"
        "[Scroll 0 1, Key KEY_R PRESS]" "[(0, 0, 0), (2, 0, 0)]" None]
    by auto
qed

text \<open>
  C6 as stated includes \<open>load_points\<close>. Two points 1000 apart on the x axis give a
  bounding box of extent 1000 and a camera distance of 1500, above the upper bound.
\<close>

theorem load_points_distance_counterexample:
  "\<not> (case load_points [(0, 0, 0), (1000, 0, 0)] None (Renderer_init 1920 1080) of
         Inl e \<Rightarrow> True
       | Inr r' \<Rightarrow> distance_in_bounds (camera r'))"
  by (simp add: load_points_def height_colormap_def Let_def bbox_max_dim_def
      Camera_update_position_def distance_in_bounds_def)

section \<open>Viewport controller\<close>

text \<open>
  C9. From any renderer state, the events: left button pressed with the cursor at
  (100, 100), cursor moved to (110, 90), left button released, call \<open>camera.rotate\<close> once,
  with (10, 10), and nothing else on the camera; afterwards no button is held.
\<close>

theorem drag_rotates_once:
  "poll_events r [MouseButton (100, 100) MOUSE_BUTTON_LEFT PRESS,
                  CursorPos 110 90,
                  MouseButton (110, 90) MOUSE_BUTTON_LEFT RELEASE]
   = r\<lparr>camera := Camera_rotate 10 10 (camera r), calls := calls r @ [Rotate 10 10],
       mouse_pressed := False, mouse_button := None,
       last_mouse_x := 110, last_mouse_y := 90\<rparr>"
  by (simp add: poll_events_def mouse_button_callback_def mouse_move_callback_def
      PRESS_def RELEASE_def Let_def)

section \<open>Height colormap\<close>













lemma fold_np_minimum_NaN: "fold np_minimum xs NaN = NaN"
  by (induction xs) (simp_all add: np_minimum_def)

lemma fold_np_maximum_NaN: "fold np_maximum xs NaN = NaN"
  by (induction xs) (simp_all add: np_maximum_def)
























section \<open>Voxel downsampling\<close>

lemma first_index_less: "k \<in> set xs \<Longrightarrow> first_index xs k < length xs"
  by (induction xs) auto

lemma first_index_nth: "k \<in> set xs \<Longrightarrow> xs ! first_index xs k = k"
  by (induction xs) auto

lemma first_index_least: "i < first_index xs k \<Longrightarrow> xs ! i \<noteq> k"
proof (induction xs arbitrary: i)
  case Nil
  then show ?case by simp
next
  case (Cons x xs)
  then show ?case by (cases i) (auto split: if_splits)
qed

lemma first_index_distinct: "distinct xs \<Longrightarrow> map (first_index xs) xs = [0..<length xs]"
proof (induction xs)
  case Nil
  show ?case by simp
next
  case (Cons x xs)
  from Cons.prems have notin: "x \<notin> set xs" and d: "distinct xs" by simp_all
  have "map (first_index (x # xs)) xs = map (\<lambda>k. Suc (first_index xs k)) xs"
  proof (rule map_cong)
    fix k assume "k \<in> set xs"
    with notin have "x \<noteq> k" by auto
    then show "first_index (x # xs) k = Suc (first_index xs k)" by simp
  qed simp
  also have "\<dots> = map Suc (map (first_index xs) xs)" by simp
  also have "\<dots> = map Suc [0..<length xs]" using Cons.IH [OF d] by simp
  also have "\<dots> = [Suc 0..<Suc (length xs)]" by (rule map_Suc_upt)
  finally have tl: "map (first_index (x # xs)) xs = [Suc 0..<Suc (length xs)]" .
  have hd: "map (first_index (x # xs)) (x # xs) = 0 # map (first_index (x # xs)) xs"
    by simp
  have up: "[0..<length (x # xs)] = 0 # [Suc 0..<Suc (length xs)]"
    using upt_conv_Cons [of 0 "Suc (length xs)"] by (simp del: upt_Suc)
  show ?case unfolding hd up tl ..
qed

lemma unique_return_index_in_range:
  "list_all (\<lambda>i. i < length ar) (unique_return_index ar)"
  by (simp add: unique_return_index_def list_all_iff first_index_less)

lemma unique_return_index_length:
  "length (unique_return_index ar) = length (sort (remdups ar))"
  by (simp add: unique_return_index_def)

lemma unique_return_index_keys:
  "map (\<lambda>i. ar ! i) (unique_return_index ar) = sort (remdups ar)"
proof -
  have "map (\<lambda>k. ar ! first_index ar k) (sort (remdups ar)) = map (\<lambda>k. k) (sort (remdups ar))"
    by (rule map_cong) (simp_all add: first_index_nth)
  then show ?thesis by (simp add: unique_return_index_def comp_def)
qed

lemma unique_return_index_sorted_distinct:
  "sorted ks \<Longrightarrow> distinct ks \<Longrightarrow> unique_return_index ks = [0..<length ks]"
  by (simp add: unique_return_index_def sorted_sort_id distinct_remdups_id first_index_distinct)

lemma take_rows_upt: "take_rows xs [0..<length xs] = Inr xs"
  by (simp add: take_rows_def list_all_iff map_nth)

lemma take_rows_Inr:
  "list_all (\<lambda>i. i < length a) indices \<Longrightarrow> take_rows a indices = Inr (map (\<lambda>i. a ! i) indices)"
  by (simp add: take_rows_def)

lemma take_rows_length: "take_rows a indices = Inr b \<Longrightarrow> length b = length indices"
  by (auto simp: take_rows_def split: if_splits)

text \<open>The points kept, and the voxels of the points kept.\<close>

lemma voxel_downsample_Inr:
  assumes "cols = None \<or> map_option length cols = Some (length pts)"
  shows "voxel_downsample oor pts cols v =
     Inr (map (\<lambda>i. pts ! i) (unique_return_index (map (voxel_index oor v) pts)),
          map_option (\<lambda>cs. map (\<lambda>i. cs ! i) (unique_return_index (map (voxel_index oor v) pts))) cols)"
proof -
  have r: "list_all (\<lambda>i. i < length pts) (unique_return_index (map (voxel_index oor v) pts))"
    using unique_return_index_in_range [of "map (voxel_index oor v) pts"] by simp
  show ?thesis
  proof (cases cols)
    case None
    with r show ?thesis by (simp add: voxel_downsample_def Let_def take_rows_Inr)
  next
    case (Some cs)
    with assms have "length cs = length pts" by simp
    with r have "list_all (\<lambda>i. i < length cs) (unique_return_index (map (voxel_index oor v) pts))"
      by simp
    with r Some show ?thesis by (simp add: voxel_downsample_def Let_def take_rows_Inr)
  qed
qed

lemma kept_keys:
  "map f (map (\<lambda>i. pts ! i) (unique_return_index (map f pts))) = sort (remdups (map f pts))"
proof -
  have "map f (map (\<lambda>i. pts ! i) (unique_return_index (map f pts)))
        = map (\<lambda>i. map f pts ! i) (unique_return_index (map f pts))"
    using unique_return_index_in_range [of "map f pts"]
    by (simp add: list_all_iff)
  then show ?thesis by (simp add: unique_return_index_keys)
qed

lemma spec_first_seen_keys:
  "distinct (map key (spec_first_seen key seen ps))
   \<and> set (map key (spec_first_seen key seen ps)) = key ` set ps - set seen"
proof (induction ps arbitrary: seen)
  case Nil
  show ?case by simp
next
  case (Cons p ps)
  show ?case
  proof (cases "key p \<in> set seen")
    case True
    with Cons [of seen] show ?thesis by auto
  next
    case False
    with Cons [of "key p # seen"] show ?thesis by auto
  qed
qed

lemma spec_first_seen_first:
  "q \<in> set (spec_first_seen key seen ps) \<Longrightarrow> q = ps ! first_index (map key ps) (key q)"
proof (induction ps arbitrary: seen)
  case Nil
  then show ?case by simp
next
  case (Cons p ps)
  show ?case
  proof (cases "key p \<in> set seen")
    case True
    with Cons.prems have q: "q \<in> set (spec_first_seen key seen ps)" by simp
    then have "key q \<in> set (map key (spec_first_seen key seen ps))" by simp
    then have "key q \<notin> set seen" unfolding conjunct2 [OF spec_first_seen_keys] by simp
    with True have "key p \<noteq> key q" by auto
    with Cons.IH [OF q] show ?thesis by simp
  next
    case False
    with Cons.prems have "q = p \<or> q \<in> set (spec_first_seen key (key p # seen) ps)" by simp
    then show ?thesis
    proof
      assume "q = p"
      then show ?thesis by simp
    next
      assume q: "q \<in> set (spec_first_seen key (key p # seen) ps)"
      then have "key q \<in> set (map key (spec_first_seen key (key p # seen) ps))" by simp
      then have "key q \<notin> set (key p # seen)" unfolding conjunct2 [OF spec_first_seen_keys] by simp
      then have "key p \<noteq> key q" by auto
      with Cons.IH [OF q] show ?thesis by simp
    qed
  qed
qed

lemma kept_set:
  "set (map (\<lambda>i. pts ! i) (unique_return_index (map key pts)))
   = set (spec_first_seen key [] pts)"
proof -
  let ?ks = "map key pts"
  let ?F = "spec_first_seen key [] pts"
  have keysF: "key ` set ?F = set ?ks"
    using conjunct2 [OF spec_first_seen_keys, of key "[]" pts] by simp
  have out: "set (map (\<lambda>i. pts ! i) (unique_return_index ?ks))
             = (\<lambda>k. pts ! first_index ?ks k) ` set ?ks"
    by (simp add: unique_return_index_def image_image)
  show ?thesis
  proof (intro equalityI subsetI)
    fix q assume "q \<in> set (map (\<lambda>i. pts ! i) (unique_return_index ?ks))"
    with out obtain k where k: "k \<in> set ?ks" and q: "q = pts ! first_index ?ks k" by auto
    from k keysF have "k \<in> key ` set ?F" by simp
    then obtain q' where q': "q' \<in> set ?F" and kq: "key q' = k" by (auto simp: image_iff)
    from spec_first_seen_first [OF q'] kq q have "q' = q" by simp
    with q' show "q \<in> set ?F" by simp
  next
    fix q assume qF: "q \<in> set ?F"
    then have "key q \<in> set ?ks" using keysF by auto
    moreover have "q = pts ! first_index ?ks (key q)" by (rule spec_first_seen_first [OF qF])
    ultimately show "q \<in> set (map (\<lambda>i. pts ! i) (unique_return_index ?ks))"
      unfolding out by blast
  qed
qed

lemma kept_is_sorted_spec:
  "map (\<lambda>i. pts ! i) (unique_return_index (map key pts))
   = sort_key key (spec_first_seen key [] pts)"
proof -
  let ?out = "map (\<lambda>i. pts ! i) (unique_return_index (map key pts))"
  let ?F = "spec_first_seen key [] pts"
  have ko: "map key ?out = sort (remdups (map key pts))" by (rule kept_keys)
  have so: "sorted (map key ?out)" and do: "distinct (map key ?out)"
    unfolding ko by simp_all
  have dF: "distinct (map key ?F)" using spec_first_seen_keys [of key "[]" pts] by simp
  then have dF': "distinct ?F" and iF: "inj_on key (set ?F)" by (simp_all add: distinct_map)
  have ss: "sorted (map key (sort_key key ?F))" by (rule sorted_sort_key)
  have ds: "distinct (map key (sort_key key ?F))"
    using dF' iF by (simp add: distinct_map)
  have sets: "set (map key ?out) = set (map key (sort_key key ?F))"
    using kept_set [of pts key] by (simp only: set_map set_sort)
  have "map key ?out = map key (sort_key key ?F)"
    by (rule sorted_distinct_set_unique [OF so do ss ds sets])
  moreover have "inj_on key (set ?out \<union> set (sort_key key ?F))"
    using iF kept_set [of pts key] by simp
  ultimately show ?thesis by (simp only: inj_on_map_eq_map)
qed

text \<open>
  C3. Voxel dedup is idempotent: for a positive voxel size and a point array without
  colours, or with one colour per point, \<open>voxel_downsample\<close> returns, and applied to
  its own result with the same voxel size it returns that result again, points and colours.
\<close>

theorem voxel_downsample_idempotent:
  assumes "0 < voxel_size"
    and "cols = None \<or> map_option length cols = Some (length pts)"
  shows "\<exists>out out_cols. voxel_downsample oor pts cols voxel_size = Inr (out, out_cols)
          \<and> voxel_downsample oor out out_cols voxel_size = Inr (out, out_cols)"
proof -
  let ?key = "voxel_index oor voxel_size"
  let ?idx = "unique_return_index (map ?key pts)"
  let ?out = "map (\<lambda>i. pts ! i) ?idx"
  let ?oc = "map_option (\<lambda>cs. map (\<lambda>i. cs ! i) ?idx) cols"
  have first: "voxel_downsample oor pts cols voxel_size = Inr (?out, ?oc)"
    by (rule voxel_downsample_Inr [OF assms(2)])
  have lens: "?oc = None \<or> map_option length ?oc = Some (length ?out)"
    by (cases cols) simp_all
  have keys: "map ?key ?out = sort (remdups (map ?key pts))" by (rule kept_keys)
  have "unique_return_index (map ?key ?out) = [0..<length (map ?key ?out)]"
    unfolding keys by (rule unique_return_index_sorted_distinct) simp_all
  then have idx2: "unique_return_index (map ?key ?out) = [0..<length ?idx]" by simp
  have p2: "map (\<lambda>i. ?out ! i) [0..<length ?idx] = ?out"
    using map_nth [of ?out] by simp
  have c2: "map_option (\<lambda>cs. map (\<lambda>i. cs ! i) [0..<length ?idx]) ?oc = ?oc"
  proof (cases cols)
    case None
    then show ?thesis by simp
  next
    case (Some cs)
    have "map (\<lambda>i. map (\<lambda>i. cs ! i) ?idx ! i) [0..<length ?idx] = map (\<lambda>i. cs ! i) ?idx"
      using map_nth [of "map (\<lambda>i. cs ! i) ?idx"] by simp
    with Some show ?thesis by simp
  qed
  have second: "voxel_downsample oor ?out ?oc voxel_size = Inr (?out, ?oc)"
    unfolding voxel_downsample_Inr [OF lens] idx2 p2 c2 ..
  from first second show ?thesis by blast
qed

text \<open>
  C2, as the code has it. For a non-empty point array and a positive voxel size,
  \<open>voxel_downsample\<close> keeps one point per distinct voxel key, the first point of that
  voxel in index order (with its colour, when there are colours), and lists the points kept
  in ascending lexicographic order of their voxel keys: the result is the specification's
  first-seen list sorted by voxel key.
\<close>

theorem voxel_downsample_first_per_voxel:
  assumes "pts \<noteq> []" and "0 < voxel_size"
    and "cols = None \<or> map_option length cols = Some (length pts)"
  shows "\<exists>out out_cols. voxel_downsample oor pts cols voxel_size = Inr (out, out_cols)
      \<and> out \<noteq> []
      \<and> sorted (map (voxel_index oor voxel_size) out)
      \<and> distinct (map (voxel_index oor voxel_size) out)
      \<and> set (map (voxel_index oor voxel_size) out) = voxel_index oor voxel_size ` set pts
      \<and> (\<forall>j<length out. \<exists>i<length pts. out ! j = pts ! i
            \<and> (\<forall>i'<i. voxel_index oor voxel_size (pts ! i') \<noteq> voxel_index oor voxel_size (pts ! i))
            \<and> (\<forall>cs. cols = Some cs \<longrightarrow> map_option (\<lambda>ocs. ocs ! j) out_cols = Some (cs ! i)))
      \<and> (cols = None \<longrightarrow> out_cols = None)
      \<and> out = sort_key (voxel_index oor voxel_size) (spec_first_seen (voxel_index oor voxel_size) [] pts)"
proof -
  let ?key = "voxel_index oor voxel_size"
  let ?ks = "map ?key pts"
  let ?idx = "unique_return_index ?ks"
  let ?out = "map (\<lambda>i. pts ! i) ?idx"
  let ?oc = "map_option (\<lambda>cs. map (\<lambda>i. cs ! i) ?idx) cols"
  have res: "voxel_downsample oor pts cols voxel_size = Inr (?out, ?oc)"
    by (rule voxel_downsample_Inr [OF assms(3)])
  have keys: "map ?key ?out = sort (remdups ?ks)" by (rule kept_keys)
  have ne: "?out \<noteq> []"
  proof
    assume "?out = []"
    then have "map ?key ?out = []" by simp
    with keys have "set (sort (remdups ?ks)) = {}" by simp
    with assms(1) show False by simp
  qed
  have s: "sorted (map ?key ?out)" and d: "distinct (map ?key ?out)"
    and st: "set (map ?key ?out) = ?key ` set pts"
    unfolding keys by simp_all
  have each: "\<forall>j<length ?out. \<exists>i<length pts. ?out ! j = pts ! i
            \<and> (\<forall>i'<i. ?key (pts ! i') \<noteq> ?key (pts ! i))
            \<and> (\<forall>cs. cols = Some cs \<longrightarrow> map_option (\<lambda>ocs. ocs ! j) ?oc = Some (cs ! i))"
  proof (intro allI impI)
    fix j assume j: "j < length ?out"
    then have j': "j < length (sort (remdups ?ks))" by (simp add: unique_return_index_length)
    let ?k = "sort (remdups ?ks) ! j"
    let ?i = "first_index ?ks ?k"
    have kin: "?k \<in> set ?ks" using nth_mem [OF j'] by simp
    have ij: "?idx ! j = ?i" using j' by (simp add: unique_return_index_def)
    have il: "?i < length pts" using first_index_less [OF kin] by simp
    have ki: "?key (pts ! ?i) = ?k" using first_index_nth [OF kin] il by simp
    have least: "\<forall>i'<?i. ?key (pts ! i') \<noteq> ?key (pts ! ?i)"
    proof (intro allI impI)
      fix i' assume lt: "i' < ?i"
      with il have "i' < length pts" by simp
      then have "?ks ! i' = ?key (pts ! i')" by simp
      with first_index_least [OF lt] ki show "?key (pts ! i') \<noteq> ?key (pts ! ?i)" by simp
    qed
    have o: "?out ! j = pts ! ?i" using j ij by simp
    have c: "\<forall>cs. cols = Some cs \<longrightarrow> map_option (\<lambda>ocs. ocs ! j) ?oc = Some (cs ! ?i)"
      using j ij by simp
    from il o least c
    show "\<exists>i<length pts. ?out ! j = pts ! i
            \<and> (\<forall>i'<i. ?key (pts ! i') \<noteq> ?key (pts ! i))
            \<and> (\<forall>cs. cols = Some cs \<longrightarrow> map_option (\<lambda>ocs. ocs ! j) ?oc = Some (cs ! i))"
      by blast
  qed
  have none: "cols = None \<longrightarrow> ?oc = None" by simp
  have spec: "?out = sort_key ?key (spec_first_seen ?key [] pts)"
    by (rule kept_is_sorted_spec)
  from res ne s d st each none spec show ?thesis by blast
qed

text \<open>
  C2 as stated has the output in first-seen order. With voxel size 1 the points
  (1.5, 0, 0), (0.5, 0, 0) lie in the voxels (1, 0, 0) and (0, 0, 0): the code returns them
  in voxel order, the second point first, where first-seen order keeps the input order.
\<close>

theorem voxel_downsample_order_counterexample:
  "voxel_downsample (\<lambda>x v. 0) [(1.5, 0, 0), (0.5, 0, 0)] None 1
     = Inr ([(0.5, 0, 0), (1.5, 0, 0)], None)
   \<and> spec_first_seen (voxel_index (\<lambda>x v. 0) 1) [] [(1.5, 0, 0), (0.5, 0, 0)]
     = [(1.5, 0, 0), (0.5, 0, 0)]"
  by (simp add: voxel_downsample_def unique_return_index_def take_rows_def
      voxel_index_def voxel_coord_def Let_def)

section \<open>Voxel downsampling at concrete inputs\<close>

lemma voxel_example:
  "voxel_downsample (\<lambda>x v. 0) [(3, 0, 0), (1, 0, 0), (0, 0, 0)]
         (Some [(1, 0, 0), (0, 1, 0), (0, 0, 1)]) 2
       = Inr ([(1, 0, 0), (3, 0, 0)], Some [(0, 1, 0), (1, 0, 0)])"
  by (simp add: voxel_downsample_def unique_return_index_def take_rows_def
        voxel_index_def voxel_coord_def Let_def)

theorem voxel_downsample_idempotent_witness:
  "(0::real) < 2
   \<and> voxel_downsample (\<lambda>x v. 0) [(3, 0, 0), (1, 0, 0), (0, 0, 0)]
         (Some [(1, 0, 0), (0, 1, 0), (0, 0, 1)]) 2
       = Inr ([(1, 0, 0), (3, 0, 0)], Some [(0, 1, 0), (1, 0, 0)])
   \<and> voxel_downsample (\<lambda>x v. 0) [(1, 0, 0), (3, 0, 0)] (Some [(0, 1, 0), (1, 0, 0)]) 2
       = Inr ([(1, 0, 0), (3, 0, 0)], Some [(0, 1, 0), (1, 0, 0)])"
proof -
  have "\<exists>out out_cols.
      voxel_downsample (\<lambda>x v. 0) [(3, 0, 0), (1, 0, 0), (0, 0, 0)]
         (Some [(1, 0, 0), (0, 1, 0), (0, 0, 1)]) 2 = Inr (out, out_cols)
      \<and> voxel_downsample (\<lambda>x v. 0) out out_cols 2 = Inr (out, out_cols)"
    by (rule voxel_downsample_idempotent) simp_all
  then obtain out out_cols where
    "Inr ([(1, 0, 0), (3, 0, 0)], Some [(0, 1, 0), (1, 0, 0)]) = (Inr (out, out_cols) :: error + _)"
    and again: "voxel_downsample (\<lambda>x v. 0) out out_cols 2 = Inr (out, out_cols)"
    unfolding voxel_example by blast
  then have "out = [(1, 0, 0), (3, 0, 0)]" and "out_cols = Some [(0, 1, 0), (1, 0, 0)]"
    by simp_all
  with again voxel_example show ?thesis by simp
qed

theorem voxel_downsample_first_per_voxel_witness:
  "[(3, 0, 0), (1, 0, 0), (0, 0, 0)] \<noteq> ([]::vec3 list) \<and> (0::real) < 2
   \<and> voxel_downsample (\<lambda>x v. 0) [(3, 0, 0), (1, 0, 0), (0, 0, 0)]
          (Some [(1, 0, 0), (0, 1, 0), (0, 0, 1)]) 2
       = Inr ([(1, 0, 0), (3, 0, 0)], Some [(0, 1, 0), (1, 0, 0)])
   \<and> [(1, 0, 0), (3, 0, 0)]
       = sort_key (voxel_index (\<lambda>x v. 0) 2)
           (spec_first_seen (voxel_index (\<lambda>x v. 0) 2) [] [(3, 0, 0), (1, 0, 0), (0, 0, 0)])"
proof -
  have a1: "[(3, 0, 0), (1, 0, 0), (0, 0, 0)] \<noteq> ([]::vec3 list)" by simp
  have a2: "(0::real) < 2" by simp
  have a3: "Some [(1, 0, 0), (0, 1, 0), (0, 0, 1)] = (None :: rgb list option)
     \<or> map_option length (Some [(1, 0, 0), (0, 1, 0), (0, 0, 1 :: real)])
        = Some (length [(3, 0, 0), (1, 0, 0), (0, 0, 0 :: real)])" by simp
  from voxel_downsample_first_per_voxel [OF a1 a2 a3, where oor = "\<lambda>x v. 0"]
  obtain out out_cols where
    "voxel_downsample (\<lambda>x v. 0) [(3, 0, 0), (1, 0, 0), (0, 0, 0)]
         (Some [(1, 0, 0), (0, 1, 0), (0, 0, 1)]) 2 = Inr (out, out_cols)"
    and sp: "out = sort_key (voxel_index (\<lambda>x v. 0) 2)
           (spec_first_seen (voxel_index (\<lambda>x v. 0) 2) [] [(3, 0, 0), (1, 0, 0), (0, 0, 0)])"
    by (elim exE conjE) (rule that, assumption+)
  then have "out = [(1, 0, 0), (3, 0, 0)]" unfolding voxel_example by simp
  with sp voxel_example a1 a2 show ?thesis by simp
qed

section \<open>Loading: the downsampling switch and the colour source\<close>

text \<open>
  C7, as the code has it. A voxel size of 0, like an absent one, disables downsampling:
  the step returns the points and colours it was given, and both loaders behave as with
  no voxel size. Any other voxel size, a negative one too, passes the truth test and
  \<open>voxel_downsample\<close> runs with it.
\<close>

theorem zero_voxel_disables_downsample:
  "apply_downsample oor None pts cols = Inr (pts, cols)
   \<and> apply_downsample oor (Some 0) pts cols = Inr (pts, cols)
   \<and> load oor choice \<lparr>max_points = limit, downsample_voxel = Some 0\<rparr> file
       = load oor choice \<lparr>max_points = limit, downsample_voxel = None\<rparr> file
   \<and> load_urban_las oor choice file limit (Some 0) = load_urban_las oor choice file limit None
   \<and> (v \<noteq> 0 \<longrightarrow> apply_downsample oor (Some v) pts cols = voxel_downsample oor pts cols v)"
proof -
  have z: "apply_downsample oor (Some 0) ps cs = apply_downsample oor None ps cs" for ps cs
    by (simp add: apply_downsample_def)
  have a: "load oor choice \<lparr>max_points = limit, downsample_voxel = Some 0\<rparr> file
       = load oor choice \<lparr>max_points = limit, downsample_voxel = None\<rparr> file"
    unfolding load_def z PointCloudLoader.select_convs by (rule refl)
  have b: "load_urban_las oor choice file limit (Some 0) = load_urban_las oor choice file limit None"
    by (cases "file") (simp_all add: load_urban_las_def z split: sum.splits)
  show ?thesis using a b by (simp add: apply_downsample_def)
qed

theorem zero_voxel_disables_downsample_witness:
  "(- 1 :: real) \<noteq> 0
   \<and> apply_downsample (\<lambda>x v. 0) (Some (- 1)) [(0.1, 0, 0), (1.2, 0, 0)] None
       = Inr ([(1.2, 0, 0), (0.1, 0, 0)], None)
   \<and> apply_downsample (\<lambda>x v. 0) (Some 0) [(0.1, 0, 0), (1.2, 0, 0)] None
       = Inr ([(0.1, 0, 0), (1.2, 0, 0)], None)"
  using zero_voxel_disables_downsample [of "\<lambda>x v. 0" "[(0.1, 0, 0), (1.2, 0, 0)]" None
      "\<lambda>n m. [0..<m]" None None "- 1"]
  by (simp add: voxel_downsample_def unique_return_index_def take_rows_def
        voxel_index_def voxel_coord_def Let_def)

text \<open>
  C7 as stated takes a negative voxel size for disabled. With voxel size -1 the points
  (0.1, 0, 0) and (0.2, 0, 0) fall into one voxel, and \<open>load\<close> returns the first only.
\<close>

theorem negative_voxel_counterexample:
  "map_sum id fst
     (load (\<lambda>x v. 0) (\<lambda>n m. [0..<m]) \<lparr>max_points = None, downsample_voxel = Some (- 1)\<rparr>
        (Some \<lparr>name = ''a.las'', xyz = [(0.1, 0, 0), (0.2, 0, 0)], rgb16 = None,
               classification = None, version = ''1.2''\<rparr>))
   = Inr [(0.1, 0, 0)]"
  by (simp add: load_def apply_downsample_def apply_max_points_def voxel_downsample_def
      unique_return_index_def take_rows_def voxel_index_def voxel_coord_def Let_def)




section \<open>Statistical outlier removal\<close>

lemma fadd_NaN_right [simp]: "fadd x NaN = NaN"
  by (cases x) simp_all

lemma foldl_fadd_NaN: "foldl fadd NaN xs = NaN"
  by (induction xs) simp_all

lemma foldl_fadd_has_NaN: "NaN \<in> set xs \<Longrightarrow> foldl fadd acc xs = NaN"
  by (induction xs arbitrary: acc) (auto simp: foldl_fadd_NaN)

lemma foldl_fadd_PInf:
  "list_all (\<lambda>x. x \<noteq> NaN \<and> x \<noteq> NInf) xs \<Longrightarrow> foldl fadd PInf xs = PInf"
proof (induction xs)
  case Nil
  show ?case by simp
next
  case (Cons x xs)
  then show ?case by (cases x) simp_all
qed

lemma foldl_fadd_has_PInf:
  "list_all (\<lambda>x. x \<noteq> NaN \<and> x \<noteq> NInf) xs \<Longrightarrow> acc \<noteq> NaN \<Longrightarrow> acc \<noteq> NInf \<Longrightarrow>
   PInf \<in> set xs \<Longrightarrow> foldl fadd acc xs = PInf"
proof (induction xs arbitrary: acc)
  case Nil
  then show ?case by simp
next
  case (Cons x xs)
  show ?case
  proof (cases "x = PInf")
    case True
    with Cons.prems have "fadd acc x = PInf" by (cases acc) simp_all
    with Cons.prems show ?thesis by (simp add: foldl_fadd_PInf)
  next
    case False
    with Cons.prems obtain a where x: "x = Fin a" by (cases x) simp_all
    from Cons.prems x have ok: "fadd acc x \<noteq> NaN \<and> fadd acc x \<noteq> NInf" by (cases acc) simp_all
    from Cons.prems False have "PInf \<in> set xs" by simp
    with Cons.IH [of "fadd acc x"] Cons.prems ok show ?thesis by simp
  qed
qed

lemma fmean_has_PInf:
  "list_all (\<lambda>x. x \<noteq> NaN \<and> x \<noteq> NInf) xs \<Longrightarrow> PInf \<in> set xs \<Longrightarrow> fmean xs = PInf"
proof -
  assume a: "list_all (\<lambda>x. x \<noteq> NaN \<and> x \<noteq> NInf) xs" and b: "PInf \<in> set xs"
  then have "foldl fadd (Fin 0) xs = PInf" by (simp add: foldl_fadd_has_PInf)
  moreover from b have "length xs \<noteq> 0" by auto
  ultimately show ?thesis by (simp add: fmean_def)
qed

lemma fmean_has_NaN: "NaN \<in> set xs \<Longrightarrow> fmean xs = NaN"
proof -
  assume a: "NaN \<in> set xs"
  then have "foldl fadd (Fin 0) xs = NaN" by (rule foldl_fadd_has_NaN)
  moreover from a have "length xs \<noteq> 0" by auto
  ultimately show ?thesis by (simp add: fmean_def)
qed

text \<open>With no more points than neighbours asked for, every mean distance is infinite.\<close>

lemma query_row_mean:
  assumes "tree \<noteq> []" and "length tree \<le> nb"
  shows "fmean (tl (query_row tree (nb + 1) p)) = PInf"
proof -
  let ?ds = "sort (map (\<lambda>q. vlength (vsub p q)) tree)"
  have len: "length ?ds = length tree" by simp
  with assms have ne: "?ds \<noteq> []" by (metis length_0_conv)
  have tk: "take (nb + 1) ?ds = ?ds" using assms(2) len by simp
  from assms(2) len obtain m where m: "nb + 1 - length ?ds = Suc m"
    by (metis Suc_diff_le Suc_eq_plus1)
  have row: "query_row tree (nb + 1) p = map Fin ?ds @ replicate (Suc m) PInf"
    unfolding query_row_def Let_def tk m ..
  have tlrow: "tl (query_row tree (nb + 1) p) = map Fin (tl ?ds) @ replicate (Suc m) PInf"
    unfolding row using ne by (simp add: map_tl)
  show ?thesis
    unfolding tlrow by (rule fmean_has_PInf) (auto simp: list_all_iff)
qed

lemma select_mask_none: "select_mask (map (\<lambda>x. False) xs) ys = []"
proof -
  have "\<not> fst x" if "x \<in> set (zip (map (\<lambda>x. False) xs) ys)" for x
  proof -
    obtain a b where x: "x = (a, b)" by (cases x)
    with that have "a \<in> set (map (\<lambda>x. False) xs)" by (auto dest: set_zip_leftD)
    with x show ?thesis by auto
  qed
  then show ?thesis by (simp add: select_mask_def filter_empty_conv)
qed

lemma remove_outliers_few_points:
  assumes "pts \<noteq> []" and "length pts \<le> nb_neighbors"
    and "cols = None \<or> map_option length cols = Some (length pts)"
  shows "remove_outliers pts cols nb_neighbors std_ratio = Inr ([], map_option (\<lambda>cs. []) cols)"
proof -
  from assms have nb: "nb_neighbors \<noteq> 0" by (cases pts) auto
  let ?md = "map (\<lambda>row. fmean (tl row)) (map (query_row pts (nb_neighbors + 1)) pts)"
  have md: "?md = map (\<lambda>p. PInf) pts"
    using query_row_mean [OF assms(1) assms(2)] by simp
  have inf: "PInf \<in> set (map (\<lambda>p. PInf) pts)" using assms(1) by (cases pts) simp_all
  have gm: "fmean (map (\<lambda>p. PInf) pts) = PInf"
    by (rule fmean_has_PInf [OF _ inf]) (simp add: list_all_iff)
  have dev: "map (\<lambda>x. fmul (fabs (fsub x PInf)) (fabs (fsub x PInf))) (map (\<lambda>p. PInf) pts)
             = map (\<lambda>p. NaN) pts"
    by (simp add: fsub_def)
  have "NaN \<in> set (map (\<lambda>p. NaN) pts)" using assms(1) by (cases pts) simp_all
  then have "fmean (map (\<lambda>p. NaN) pts) = NaN" by (rule fmean_has_NaN)
  then have gs: "fstd (map (\<lambda>p. PInf) pts) = NaN"
    unfolding fstd_def gm dev by simp
  have th: "fadd PInf (fmul (Fin std_ratio) NaN) = NaN" by simp
  have mask: "map (\<lambda>m. fless m NaN) (map (\<lambda>p. PInf) pts) = map (\<lambda>p. False) pts"
    by simp
  show ?thesis
    using nb assms(1) assms(3)
    unfolding remove_outliers_def Let_def md gm gs th mask select_mask_none
    by (cases cols) auto
qed

text \<open>
  C1 on the code. The claim has \<open>remove_outliers\<close> return its input unchanged when
  there are no more points than neighbours asked for. The code has no such case: every
  mean distance is then infinite, the standard deviation and the threshold are NaN, no
  comparison with the threshold holds and every point is removed. For a single point, and
  for three points with colours, both with the default 20 neighbours, the result is empty.
\<close>

theorem remove_outliers_removes_all:
  "remove_outliers [(0, 0, 0)] None 20 2 = Inr ([], None)
   \<and> remove_outliers [(0, 0, 0), (1, 0, 0), (0, 2, 0)] (Some [(1, 0, 0), (0, 1, 0), (0, 0, 1)]) 20 2
       = Inr ([], Some [])"
  using remove_outliers_few_points [of "[(0, 0, 0)]" 20 None 2]
    remove_outliers_few_points [of "[(0, 0, 0), (1, 0, 0), (0, 2, 0)]" 20
      "Some [(1, 0, 0), (0, 1, 0), (0, 0, 1)]" 2]
  by simp

lemma remove_outliers_selects:
  assumes "remove_outliers pts cols nb_neighbors std_ratio = Inr (out, out_cols)"
  shows "\<exists>keep. length keep = length pts \<and> out = select_mask keep pts
           \<and> out_cols = map_option (select_mask keep) cols \<and> length out \<le> length pts"
proof -
  have le: "length (select_mask keep xs) \<le> length xs" for keep :: "bool list" and xs :: "'a list"
    unfolding select_mask_def
    by (metis length_map length_filter_le length_zip min.cobounded2 le_trans)
  from assms show ?thesis
    unfolding remove_outliers_def Let_def
    by (auto split: if_splits option.splits sum.splits intro!: exI le)
qed

end
